theory Spec2Isabelle
  imports Main "HOL-Library.Word"
begin

unbundle bit_operations_syntax

section \<open>The memory manager of kern/mm.c, on a 32-bit target\<close>

text \<open>
  The model fixes \<open>GRUB_CPU_SIZEOF_VOID_P == 4\<close> (the i386 target of the repository):
  \<open>grub_addr_t\<close> and \<open>grub_size_t\<close> are 32-bit words, pointers are addresses, and
  pointer arithmetic wraps at \<open>2 ^ 32\<close>. Memory is a flat array of bytes, so a header
  that the code writes at a computed address aliases whatever else lives there.
\<close>

type_synonym grub_addr_t = "32 word"
type_synonym grub_size_t = "32 word"
type_synonym memory = "grub_addr_t \<Rightarrow> 8 word"

subsection \<open>Loads and stores of one machine word (little endian)\<close>

definition load32 :: "memory \<Rightarrow> grub_addr_t \<Rightarrow> 32 word" where
  "load32 m a =
     ucast (m a) OR push_bit 8 (ucast (m (a + 1)))
       OR push_bit 16 (ucast (m (a + 2))) OR push_bit 24 (ucast (m (a + 3)))"

definition store32 :: "memory \<Rightarrow> grub_addr_t \<Rightarrow> 32 word \<Rightarrow> memory" where
  "store32 m a v =
     m(a := ucast v, a + 1 := ucast (drop_bit 8 v),
       a + 2 := ucast (drop_bit 16 v), a + 3 := ucast (drop_bit 24 v))"

text \<open>\<open>grub_memmove\<close> (which \<open>grub_memcpy\<close> is) and \<open>grub_memset\<close> on a range of bytes.\<close>

definition grub_memcpy :: "memory \<Rightarrow> grub_addr_t \<Rightarrow> grub_addr_t \<Rightarrow> grub_size_t \<Rightarrow> memory" where
  "grub_memcpy m dest src n = (\<lambda>a. if a - dest < n then m (src + (a - dest)) else m a)"

definition grub_memset :: "memory \<Rightarrow> grub_addr_t \<Rightarrow> 8 word \<Rightarrow> grub_size_t \<Rightarrow> memory" where
  "grub_memset m dest c n = (\<lambda>a. if a - dest < n then c else m a)"

subsection \<open>Block headers\<close>

definition GRUB_MM_FREE_MAGIC :: grub_size_t where
  "GRUB_MM_FREE_MAGIC = 0x2d3c2808"

definition GRUB_MM_ALLOC_MAGIC :: grub_size_t where
  "GRUB_MM_ALLOC_MAGIC = 0x6db08fa4"

definition GRUB_MM_ALIGN_LOG2 :: nat where
  "GRUB_MM_ALIGN_LOG2 = 4"

definition GRUB_MM_ALIGN :: "32 word" where
  "GRUB_MM_ALIGN = push_bit GRUB_MM_ALIGN_LOG2 1"

text \<open>
  \<open>struct grub_mm_header { prev; next; size; magic; }\<close>: four words, one cell.
  A header pointer is the address of its first byte; \<open>p + k\<close> on header pointers
  advances by \<open>k\<close> cells.
\<close>

definition hdr_plus :: "grub_addr_t \<Rightarrow> grub_size_t \<Rightarrow> grub_addr_t" where
  "hdr_plus p k = p + k * GRUB_MM_ALIGN"

definition get_prev :: "memory \<Rightarrow> grub_addr_t \<Rightarrow> grub_addr_t" where
  "get_prev m p = load32 m p"

definition get_next :: "memory \<Rightarrow> grub_addr_t \<Rightarrow> grub_addr_t" where
  "get_next m p = load32 m (p + 4)"

definition get_size :: "memory \<Rightarrow> grub_addr_t \<Rightarrow> grub_size_t" where
  "get_size m p = load32 m (p + 8)"

definition get_magic :: "memory \<Rightarrow> grub_addr_t \<Rightarrow> grub_size_t" where
  "get_magic m p = load32 m (p + 12)"

definition set_prev :: "memory \<Rightarrow> grub_addr_t \<Rightarrow> grub_addr_t \<Rightarrow> memory" where
  "set_prev m p v = store32 m p v"

definition set_next :: "memory \<Rightarrow> grub_addr_t \<Rightarrow> grub_addr_t \<Rightarrow> memory" where
  "set_next m p v = store32 m (p + 4) v"

definition set_size :: "memory \<Rightarrow> grub_addr_t \<Rightarrow> grub_size_t \<Rightarrow> memory" where
  "set_size m p v = store32 m (p + 8) v"

definition set_magic :: "memory \<Rightarrow> grub_addr_t \<Rightarrow> grub_size_t \<Rightarrow> memory" where
  "set_magic m p v = store32 m (p + 12) v"

subsection \<open>Regions, policies and the allocator state\<close>

text \<open>
  The strategy selectors \<open>GRUB_MM_ALLOCATOR_*\<close> and the policy ids
  \<open>GRUB_MM_MALLOC_*\<close> are an enumeration each. The region list headed by the static
  \<open>base\<close> is a list of region records in list order (\<open>r->next\<close> is the tail); a
  region pointer is an index into it. The region structs themselves are not part of
  the byte memory.
\<close>

datatype allocator =
  GRUB_MM_ALLOCATOR_SKIP | GRUB_MM_ALLOCATOR_FIRST | GRUB_MM_ALLOCATOR_SECOND | GRUB_MM_ALLOCATOR_LAST

datatype policy = GRUB_MM_MALLOC_DEFAULT | GRUB_MM_MALLOC_LOW | GRUB_MM_MALLOC_LOW_END

record grub_mm_region =
  first :: grub_addr_t
  addr :: grub_addr_t
  rsize :: grub_size_t
  policies :: "policy \<Rightarrow> allocator"

text \<open>
  Modelled from the spec: \<open>GRUB_MM_NPOLICIES\<close> is declared in grub/mm.h, which is not
  among the sources. The policy ids of include/grub/i386/memory.h end at 3, so the
  policy vector has four entries and \<open>sizeof (struct grub_mm_region)\<close> is
  \<open>4 * 4 + 4 * 4\<close> bytes, two cells.
\<close>

definition GRUB_MM_NPOLICIES :: "32 word" where
  "GRUB_MM_NPOLICIES = 4"

definition sizeof_region :: "32 word" where
  "sizeof_region = 4 * 4 + 4 * GRUB_MM_NPOLICIES"

datatype grub_err_t = GRUB_ERR_NONE | GRUB_ERR_OUT_OF_MEMORY

datatype hook = Disk_cache_invalidate_all | Dl_unload_unneeded

record mm_state =
  mem :: memory
  base :: "grub_mm_region list"
  grub_errno :: grub_err_t
  grub_errmsg :: string
  hook_log :: "hook list"

text \<open>
  \<open>grub_fatal\<close> never returns: a fatal outcome carries the message and the state at
  the moment of the call. A \<open>void\<close> function returns \<open>()\<close>, a pointer-valued one an
  address, \<open>0\<close> for the null pointer.
\<close>

datatype fatal =
  Unaligned_pointer | Out_of_range_pointer | Alloc_magic_is_broken
  | Null_in_the_ring | Free_magic_is_broken

datatype 'a outcome = Return 'a mm_state | Fatal fatal mm_state

subsection \<open>get_header_from_pointer\<close>

definition in_region :: "grub_mm_region \<Rightarrow> grub_addr_t \<Rightarrow> bool" where
  "in_region r ptr \<longleftrightarrow> ptr > addr r \<and> ptr \<le> addr r + rsize r"

fun find_region :: "grub_mm_region list \<Rightarrow> grub_addr_t \<Rightarrow> nat \<Rightarrow> nat option" where
  "find_region [] ptr i = None"
| "find_region (r # rs) ptr i = (if in_region r ptr then Some i else find_region rs ptr (Suc i))"

definition get_header_from_pointer ::
  "mm_state \<Rightarrow> grub_addr_t \<Rightarrow> (grub_addr_t \<times> nat) outcome" where
  "get_header_from_pointer s ptr =
     (if ptr AND (GRUB_MM_ALIGN - 1) \<noteq> 0 then Fatal Unaligned_pointer s
      else case find_region (base s) ptr 0 of
        None \<Rightarrow> Fatal Out_of_range_pointer s
      | Some i \<Rightarrow>
          let p = ptr - GRUB_MM_ALIGN in
          if get_magic (mem s) p \<noteq> GRUB_MM_ALLOC_MAGIC then Fatal Alloc_magic_is_broken s
          else Return (p, i) s)"

subsection \<open>grub_mm_init_region\<close>

text \<open>
  Modelled from the spec: the macro \<open>ALIGN_UP\<close> comes from a header that is not among
  the sources; it rounds an address up to the next multiple of the alignment.
\<close>

definition ALIGN_UP :: "32 word \<Rightarrow> 32 word \<Rightarrow> 32 word" where
  "ALIGN_UP a align = (a + align - 1) AND NOT (align - 1)"

fun insert_region :: "grub_mm_region \<Rightarrow> grub_mm_region list \<Rightarrow> grub_mm_region list" where
  "insert_region r [] = [r]"
| "insert_region r (q # qs) = (if rsize q > rsize r then r # q # qs else q # insert_region r qs)"

definition grub_mm_init_region ::
  "grub_addr_t \<Rightarrow> grub_size_t \<Rightarrow> (policy \<Rightarrow> allocator) \<Rightarrow> mm_state \<Rightarrow> mm_state" where
  "grub_mm_init_region a sz pols s =
     (if sz < GRUB_MM_ALIGN * 4 then s
      else
        let r = ALIGN_UP a GRUB_MM_ALIGN;
            sz = sz - (r - a + sizeof_region);
            h = r + sizeof_region;
            m = set_next (mem s) h h;
            m = set_prev m h h;
            m = set_magic m h GRUB_MM_FREE_MAGIC;
            m = set_size m h (drop_bit GRUB_MM_ALIGN_LOG2 sz);
            reg = \<lparr> first = h, addr = h,
                    rsize = push_bit GRUB_MM_ALIGN_LOG2 (get_size m h),
                    policies = pols \<rparr>
        in s\<lparr> mem := m, base := insert_region reg (base s) \<rparr>)"

subsection \<open>split_chunk and grub_real_malloc\<close>

definition split_chunk :: "memory \<Rightarrow> grub_addr_t \<Rightarrow> grub_size_t \<Rightarrow> memory" where
  "split_chunk m p sz =
     (if get_size m p \<le> sz then m
      else
        let q = hdr_plus p sz;
            m = set_magic m q GRUB_MM_FREE_MAGIC;
            m = set_size m q (get_size m p - sz);
            m = set_next m q (get_next m p);
            m = set_prev m q p;
            m = set_next m p q;
            m = set_prev m (get_next m q) q;
            m = set_size m p sz
        in m)"

definition set_first :: "nat \<Rightarrow> grub_addr_t \<Rightarrow> mm_state \<Rightarrow> mm_state" where
  "set_first i p s = s\<lparr> base := (base s)[i := (base s ! i)\<lparr> first := p \<rparr>] \<rparr>"

definition get_first :: "mm_state \<Rightarrow> nat \<Rightarrow> grub_addr_t" where
  "get_first s i = first (base s ! i)"

text \<open>The body of the search loop once the block \<open>p\<close> is known to fit.\<close>

definition carve ::
  "grub_size_t \<Rightarrow> grub_size_t \<Rightarrow> grub_size_t \<Rightarrow> nat \<Rightarrow> allocator \<Rightarrow> grub_addr_t \<Rightarrow> mm_state
     \<Rightarrow> grub_addr_t \<times> mm_state" where
  "carve align n want0 i alloc p s =
     (let want = (if alloc = GRUB_MM_ALLOCATOR_LAST
                  then want0 + ((get_size (mem s) p - want0) div align) * align else want0);
          m = split_chunk (mem s) p want
      in if want = n then
           let s = (if p = get_first s i then set_first i (get_next m p) s else s);
               m = set_next m (get_prev m p) (get_next m p);
               m = set_prev m (get_next m p) (get_prev m p);
               m = set_magic m p GRUB_MM_ALLOC_MAGIC
           in (hdr_plus p 1, s\<lparr> mem := m \<rparr>)
         else
           let m = set_size m p (get_size m p - n);
               p = hdr_plus p (get_size m p);
               m = set_size m p n;
               m = set_magic m p GRUB_MM_ALLOC_MAGIC
           in (hdr_plus p 1, s\<lparr> mem := m \<rparr>))"

partial_function (option) real_malloc_loop ::
  "grub_size_t \<Rightarrow> grub_size_t \<Rightarrow> nat \<Rightarrow> allocator \<Rightarrow> grub_addr_t \<Rightarrow> grub_addr_t \<Rightarrow> mm_state
     \<Rightarrow> grub_addr_t outcome option" where
  "real_malloc_loop align n i alloc stop p s =
     (let want = n + (drop_bit GRUB_MM_ALIGN_LOG2 (hdr_plus p 1) AND (align - 1)) in
      if p = 0 then Some (Fatal Null_in_the_ring s)
      else if get_magic (mem s) p \<noteq> GRUB_MM_FREE_MAGIC then Some (Fatal Free_magic_is_broken s)
      else if get_size (mem s) p \<ge> want then
        (case carve align n want i alloc p s of (ptr, s') \<Rightarrow> Some (Return ptr s'))
      else if p = stop then Some (Return 0 s)
      else real_malloc_loop align n i alloc stop
             (if alloc = GRUB_MM_ALLOCATOR_LAST then get_prev (mem s) p else get_next (mem s) p) s)"

declare real_malloc_loop.simps [code]

definition cells_for :: "grub_size_t \<Rightarrow> grub_size_t" where
  "cells_for sz = drop_bit GRUB_MM_ALIGN_LOG2 (sz + GRUB_MM_ALIGN - 1) + 1"

definition grub_real_malloc ::
  "grub_size_t \<Rightarrow> grub_size_t \<Rightarrow> nat \<Rightarrow> allocator \<Rightarrow> mm_state \<Rightarrow> grub_addr_t outcome option" where
  "grub_real_malloc align sz i alloc s =
     (let n = cells_for sz;
          align = drop_bit GRUB_MM_ALIGN_LOG2 align;
          align = (if align = 0 then 1 else align);
          f = get_first s i
      in if get_magic (mem s) f = GRUB_MM_ALLOC_MAGIC then Some (Return 0 s)
         else case alloc of
           GRUB_MM_ALLOCATOR_SECOND \<Rightarrow>
             real_malloc_loop align n i alloc f (get_next (mem s) f) s
         | GRUB_MM_ALLOCATOR_LAST \<Rightarrow>
             real_malloc_loop align n i alloc f (get_prev (mem s) f) s
         | _ \<Rightarrow>
             real_malloc_loop align n i alloc (get_prev (mem s) f) f s)"

subsection \<open>grub_memalign_policy and the allocate variants\<close>

text \<open>
  The scan \<open>for (r = base; r; r = r->next)\<close>, over the indices of the region list that
  are still to visit.
\<close>

fun scan_regions ::
  "grub_size_t \<Rightarrow> grub_size_t \<Rightarrow> policy \<Rightarrow> nat list \<Rightarrow> mm_state \<Rightarrow> grub_addr_t outcome option" where
  "scan_regions align sz pol [] s = Some (Return 0 s)"
| "scan_regions align sz pol (i # is) s =
     (if policies (base s ! i) pol = GRUB_MM_ALLOCATOR_SKIP then scan_regions align sz pol is s
      else case grub_real_malloc align sz i (policies (base s ! i) pol) s of
        None \<Rightarrow> None
      | Some (Fatal e s') \<Rightarrow> Some (Fatal e s')
      | Some (Return p s') \<Rightarrow>
          if p \<noteq> 0 then Some (Return p s') else scan_regions align sz pol is s')"

text \<open>
  The two reclamation hooks are functions of the environment. The log of their calls
  is a ghost field that the hooks cannot write.
\<close>

record hooks =
  grub_disk_cache_invalidate_all :: "mm_state \<Rightarrow> mm_state"
  grub_dl_unload_unneeded :: "mm_state \<Rightarrow> mm_state"

definition call_hook :: "hook \<Rightarrow> (mm_state \<Rightarrow> mm_state) \<Rightarrow> mm_state \<Rightarrow> mm_state" where
  "call_hook h f s = (f s)\<lparr> hook_log := hook_log s @ [h] \<rparr>"

definition grub_error :: "grub_err_t \<Rightarrow> string \<Rightarrow> mm_state \<Rightarrow> mm_state" where
  "grub_error n msg s = s\<lparr> grub_errno := n, grub_errmsg := msg \<rparr>"

text \<open>The label \<open>again\<close> with the local \<open>count\<close> as argument.\<close>

function memalign_again ::
  "hooks \<Rightarrow> grub_size_t \<Rightarrow> grub_size_t \<Rightarrow> policy \<Rightarrow> nat \<Rightarrow> mm_state \<Rightarrow> grub_addr_t outcome option" where
  "memalign_again env align sz pol count s =
     (case scan_regions align sz pol [0 ..< length (base s)] s of
        None \<Rightarrow> None
      | Some (Fatal e s') \<Rightarrow> Some (Fatal e s')
      | Some (Return p s') \<Rightarrow>
          if p \<noteq> 0 then Some (Return p s')
          else if count = 0 then
            memalign_again env align sz pol (count + 1)
              (call_hook Disk_cache_invalidate_all (grub_disk_cache_invalidate_all env) s')
          else if count = 1 then
            memalign_again env align sz pol (count + 1)
              (call_hook Dl_unload_unneeded (grub_dl_unload_unneeded env) s')
          else Some (Return 0 (grub_error GRUB_ERR_OUT_OF_MEMORY ''out of memory'' s')))"
  by pat_completeness auto
termination
  by (relation "measure (\<lambda>(env, align, sz, pol, count, s). 2 - count)") auto

declare memalign_again.simps [simp del]

definition grub_memalign_policy ::
  "hooks \<Rightarrow> grub_size_t \<Rightarrow> grub_size_t \<Rightarrow> policy \<Rightarrow> mm_state \<Rightarrow> grub_addr_t outcome option" where
  "grub_memalign_policy env align sz pol s = memalign_again env align sz pol 0 s"

definition grub_memalign ::
  "hooks \<Rightarrow> grub_size_t \<Rightarrow> grub_size_t \<Rightarrow> mm_state \<Rightarrow> grub_addr_t outcome option" where
  "grub_memalign env align sz s = grub_memalign_policy env align sz GRUB_MM_MALLOC_DEFAULT s"

definition grub_malloc :: "hooks \<Rightarrow> grub_size_t \<Rightarrow> mm_state \<Rightarrow> grub_addr_t outcome option" where
  "grub_malloc env sz s = grub_memalign env 0 sz s"

definition grub_zalloc :: "hooks \<Rightarrow> grub_size_t \<Rightarrow> mm_state \<Rightarrow> grub_addr_t outcome option" where
  "grub_zalloc env sz s =
     (case grub_memalign env 0 sz s of
        None \<Rightarrow> None
      | Some (Fatal e s') \<Rightarrow> Some (Fatal e s')
      | Some (Return ret s') \<Rightarrow>
          if ret \<noteq> 0 then Some (Return ret (s'\<lparr> mem := grub_memset (mem s') ret 0 sz \<rparr>))
          else Some (Return ret s'))"

subsection \<open>grub_free\<close>

text \<open>
  The walk \<open>for (q = r->first; p >= q && q != r->first->prev; q = q->next)\<close>; it writes
  nothing, so it returns the node it stops at, or the fatal message.
\<close>

partial_function (option) free_walk ::
  "memory \<Rightarrow> grub_addr_t \<Rightarrow> grub_addr_t \<Rightarrow> grub_addr_t \<Rightarrow> (fatal + grub_addr_t) option" where
  "free_walk m p stop q =
     (if p \<ge> q \<and> q \<noteq> stop then
        (if get_magic m q \<noteq> GRUB_MM_FREE_MAGIC then Some (Inl Free_magic_is_broken)
         else free_walk m p stop (get_next m q))
      else Some (Inr q))"

declare free_walk.simps [code]

text \<open>The insertion and the two merges that follow the walk.\<close>

definition free_insert :: "nat \<Rightarrow> grub_addr_t \<Rightarrow> grub_addr_t \<Rightarrow> mm_state \<Rightarrow> mm_state" where
  "free_insert i p q0 s =
     (let m = mem s;
          q = (if p < q0 then get_prev m q0 else q0);
          s = (if get_first s i = get_next m q \<and> p < get_next m q then set_first i p s else s);
          m = set_magic m p GRUB_MM_FREE_MAGIC;
          m = set_next m p (get_next m q);
          m = set_prev m (get_next m p) p;
          m = set_next m q p;
          m = set_prev m (get_next m q) q;
          m = (if hdr_plus p (get_size m p) = get_next m p then
                 let m = set_magic m (get_next m p) 0;
                     m = set_size m p (get_size m p + get_size m (get_next m p));
                     m = set_next m p (get_next m (get_next m p));
                     m = set_prev m (get_next m p) p
                 in m
               else m);
          m = (if hdr_plus q (get_size m q) = p then
                 let m = set_magic m p 0;
                     m = set_size m q (get_size m q + get_size m p);
                     m = set_next m q (get_next m p);
                     m = set_prev m (get_next m q) q
                 in m
               else m)
      in s\<lparr> mem := m \<rparr>)"

definition grub_free :: "grub_addr_t \<Rightarrow> mm_state \<Rightarrow> unit outcome option" where
  "grub_free ptr s =
     (if ptr = 0 then Some (Return () s)
      else case get_header_from_pointer s ptr of
        Fatal e s' \<Rightarrow> Some (Fatal e s')
      | Return (p, i) s' \<Rightarrow>
          if get_magic (mem s) (get_first s i) = GRUB_MM_ALLOC_MAGIC then
            let m = set_magic (mem s) p GRUB_MM_FREE_MAGIC;
                m = set_prev m p p;
                m = set_next m p p
            in Some (Return () (set_first i p (s\<lparr> mem := m \<rparr>)))
          else
            (case free_walk (mem s) p (get_prev (mem s) (get_first s i)) (get_first s i) of
               None \<Rightarrow> None
             | Some (Inl e) \<Rightarrow> Some (Fatal e s)
             | Some (Inr q) \<Rightarrow> Some (Return () (free_insert i p q s))))"

subsection \<open>grub_rememalign_policy\<close>

definition grow_in_place :: "nat \<Rightarrow> grub_addr_t \<Rightarrow> grub_addr_t \<Rightarrow> grub_size_t \<Rightarrow> mm_state \<Rightarrow> mm_state" where
  "grow_in_place i p p2 n s =
     (let m = split_chunk (mem s) p2 (n - get_size (mem s) p);
          m = set_prev m (get_next m p2) (get_prev m p2);
          m = set_next m (get_prev m p2) (get_next m p2);
          s = (if get_first s i = p2 then set_first i (get_next m p2) s else s);
          s = (if get_first s i = p2 then set_first i p s else s);
          m = set_size m p n
      in s\<lparr> mem := m \<rparr>)"

definition grub_rememalign_policy ::
  "hooks \<Rightarrow> grub_addr_t \<Rightarrow> grub_size_t \<Rightarrow> grub_size_t \<Rightarrow> policy \<Rightarrow> mm_state
     \<Rightarrow> grub_addr_t outcome option" where
  "grub_rememalign_policy env ptr align sz pol s =
     (if ptr = 0 then grub_memalign_policy env align sz pol s
      else if sz = 0 then
        (case grub_free ptr s of
           None \<Rightarrow> None
         | Some (Fatal e s') \<Rightarrow> Some (Fatal e s')
         | Some (Return u s') \<Rightarrow> Some (Return 0 s'))
      else
        let n = cells_for sz in
        (case get_header_from_pointer s ptr of
           Fatal e s' \<Rightarrow> Some (Fatal e s')
         | Return (p, i) s' \<Rightarrow>
            let m = mem s; r = base s ! i in
            if get_size m p \<ge> n then Some (Return ptr s)
            else
              let p2 = hdr_plus p (get_size m p) in
              if p2 < addr r + push_bit GRUB_MM_ALIGN_LOG2 (rsize r)
                 \<and> get_magic m p2 = GRUB_MM_FREE_MAGIC
                 \<and> get_size m p + get_size m p2 \<ge> n
              then Some (Return ptr (grow_in_place i p p2 n s))
              else
                (case grub_memalign_policy env align sz pol s of
                   None \<Rightarrow> None
                 | Some (Fatal e s') \<Rightarrow> Some (Fatal e s')
                 | Some (Return q s') \<Rightarrow>
                    if q = 0 then Some (Return q s')
                    else
                      (case grub_free ptr (s'\<lparr> mem := grub_memcpy (mem s') q ptr sz \<rparr>) of
                         None \<Rightarrow> None
                       | Some (Fatal e s'') \<Rightarrow> Some (Fatal e s'')
                       | Some (Return u s'') \<Rightarrow> Some (Return q s'')))))"

definition grub_realloc ::
  "hooks \<Rightarrow> grub_addr_t \<Rightarrow> grub_size_t \<Rightarrow> mm_state \<Rightarrow> grub_addr_t outcome option" where
  "grub_realloc env ptr sz s = grub_rememalign_policy env ptr 1 sz GRUB_MM_MALLOC_DEFAULT s"

section \<open>Auxiliary definitions for the statements\<close>

text \<open>Observations of an outcome: the returned value with the final state, or the fatal message.\<close>

definition observe :: "('a \<Rightarrow> mm_state \<Rightarrow> 'b) \<Rightarrow> 'a outcome option \<Rightarrow> 'b option" where
  "observe f x = (case x of Some (Return v s) \<Rightarrow> Some (f v s) | _ \<Rightarrow> None)"

definition fatal_of :: "'a outcome option \<Rightarrow> fatal option" where
  "fatal_of x = (case x of Some (Fatal e s) \<Rightarrow> Some e | _ \<Rightarrow> None)"

text \<open>The three checks of \<open>get_header_from_pointer\<close>.\<close>

definition valid_ptr :: "mm_state \<Rightarrow> grub_addr_t \<Rightarrow> bool" where
  "valid_ptr s ptr \<longleftrightarrow>
     ptr AND (GRUB_MM_ALIGN - 1) = 0 \<and> find_region (base s) ptr 0 \<noteq> None
     \<and> get_magic (mem s) (ptr - GRUB_MM_ALIGN) = GRUB_MM_ALLOC_MAGIC"

text \<open>Two headers whose cells do not overlap.\<close>

definition apart :: "grub_addr_t \<Rightarrow> grub_addr_t \<Rightarrow> bool" where
  "apart p q \<longleftrightarrow> 16 \<le> p - q \<and> 16 \<le> q - p"

named_theorems hdr


text \<open>A sequence of calls of \<open>grub_mm_init_region\<close>.\<close>

fun register_regions ::
  "(grub_addr_t \<times> grub_size_t \<times> (policy \<Rightarrow> allocator)) list \<Rightarrow> mm_state \<Rightarrow> mm_state" where
  "register_regions [] s = s"
| "register_regions ((a, sz, pols) # rest) s = register_regions rest (grub_mm_init_region a sz pols s)"

text \<open>What \<open>grub_mm_init_region\<close> leaves of \<open>size\<close> after alignment and the region header.\<close>

definition usable_bytes :: "grub_addr_t \<Rightarrow> grub_size_t \<Rightarrow> grub_size_t" where
  "usable_bytes a sz = sz - (ALIGN_UP a GRUB_MM_ALIGN - a + sizeof_region)"

subsection \<open>Concrete heaps\<close>

definition empty_state :: mm_state where
  "empty_state = \<lparr> mem = (\<lambda>a. 0), base = [], grub_errno = GRUB_ERR_NONE, grub_errmsg = [], hook_log = [] \<rparr>"

definition no_hooks :: hooks where
  "no_hooks = \<lparr> grub_disk_cache_invalidate_all = (\<lambda>s. s), grub_dl_unload_unneeded = (\<lambda>s. s) \<rparr>"

definition default_policies :: "policy \<Rightarrow> allocator" where
  "default_policies pol =
     (case pol of GRUB_MM_MALLOC_DEFAULT \<Rightarrow> GRUB_MM_ALLOCATOR_SECOND | _ \<Rightarrow> GRUB_MM_ALLOCATOR_SKIP)"

definition state_of :: "'a outcome option \<Rightarrow> mm_state" where
  "state_of x = (case x of Some (Return v s) \<Rightarrow> s | Some (Fatal e s) \<Rightarrow> s | None \<Rightarrow> empty_state)"

text \<open>One region of 4 KiB at \<open>0x1000\<close>: 254 free cells from \<open>0x1020\<close>.\<close>

definition heap_4k :: mm_state where
  "heap_4k = grub_mm_init_region 0x1000 0x1000 default_policies empty_state"

text \<open>The same region after one allocation that takes all of it.\<close>

definition heap_full :: mm_state where
  "heap_full = state_of (grub_malloc no_hooks 4048 heap_4k)"

text \<open>Three blocks of 16 bytes, at \<open>0x1030\<close>, \<open>0x1050\<close> and \<open>0x1070\<close>.\<close>

definition heap_three :: mm_state where
  "heap_three =
     state_of (grub_malloc no_hooks 16 (state_of (grub_malloc no_hooks 16
       (state_of (grub_malloc no_hooks 16 heap_4k)))))"

text \<open>
  The second block is freed, then the owner of the first block writes 32 bytes into its
  16: the header of the free block that follows is overwritten.
\<close>

definition heap_overflown :: mm_state where
  "heap_overflown =
     (let s = state_of (grub_free 0x1050 heap_three)
      in s\<lparr> mem := grub_memset (mem s) 0x1030 0 32 \<rparr>)"

text \<open>
  Memory that is zero except for sixteen bytes at \<open>0x2000\<close> that read as a free
  header of one cell: \<open>prev = 0x1050\<close>, \<open>next = 0x1020\<close>. The region registered at
  \<open>0x1000\<close> with 4 KiB ends at \<open>0x2000\<close>, so these bytes lie outside it. In the
  region, a block of 16 bytes (pointer \<open>0x1030\<close>) and a block of 4016 bytes (pointer
  \<open>0x1050\<close>, up to the end of the region) are allocated and the first is freed.
\<close>

definition forged_memory :: memory where
  "forged_memory =
     set_magic (set_size (set_next (set_prev (\<lambda>a. 0) 0x2000 0x1050) 0x2000 0x1020) 0x2000 1)
       0x2000 GRUB_MM_FREE_MAGIC"

definition heap_forged :: mm_state where
  "heap_forged =
     state_of (grub_free 0x1030
       (state_of (grub_malloc no_hooks 4016
         (state_of (grub_malloc no_hooks 16
           (grub_mm_init_region 0x1000 0x1000 default_policies (empty_state\<lparr> mem := forged_memory \<rparr>)))))))"

text \<open>Two regions, of 16 KiB and of 1 KiB, registered in this order.\<close>

definition heap_two_regions :: mm_state where
  "heap_two_regions =
     register_regions [(0x10000, 0x4000, default_policies), (0x1000, 0x400, default_policies)] empty_state"

section \<open>Memory and header lemmas\<close>

lemma recompose: "(ucast (ucast (v::32 word) :: 8 word) :: 32 word) OR push_bit 8 (ucast (ucast (drop_bit 8 v) :: 8 word))
   OR push_bit 16 (ucast (ucast (drop_bit 16 v) :: 8 word)) OR push_bit 24 (ucast (ucast (drop_bit 24 v) :: 8 word)) = v"
  apply (rule bit_word_eqI)
  apply (auto simp add: bit_simps)
  apply (rule ccontr)
  apply simp
  done

lemma load32_store32_same: "load32 (store32 m a v) a = v"
  by (simp add: load32_def store32_def recompose)

lemma load32_store32_other:
  assumes "b - a \<ge> 4" "a - b \<ge> 4"
  shows "load32 (store32 m a v) b = load32 m b"
proof -
  have "b + i \<noteq> a + j" if "i \<in> {0,1,2,3}" "j \<in> {0,1,2,3}" for i j :: "32 word"
  proof
    assume "b + i = a + j"
    then have "b - a = j - i" "a - b = i - j" by (simp_all add: algebra_simps)
    with assms have "4 \<le> j - i" "4 \<le> i - j" by simp_all
    with that show False by (auto simp: word_le_nat_alt)
  qed
  from this[of 0 0] this[of 0 1] this[of 0 2] this[of 0 3]
     this[of 1 0] this[of 1 1] this[of 1 2] this[of 1 3]
 this[of 2 0] this[of 2 1] this[of 2 2] this[of 2 3]
 this[of 3 0] this[of 3 1] this[of 3 2] this[of 3 3]
  show ?thesis
    by (simp add: load32_def store32_def)
qed

lemma apart_sym: "apart p q \<Longrightarrow> apart q p" by (simp add: apart_def)

lemma apart_off:
  assumes "apart p q"
  shows "4 \<le> q - p"
    "4 \<le> q - (p + 4)"
    "4 \<le> q - (p + 8)"
    "4 \<le> q - (p + 12)"
    "4 \<le> q + 4 - p"
    "4 \<le> q + 4 - (p + 4)"
    "4 \<le> q + 4 - (p + 8)"
    "4 \<le> q + 4 - (p + 12)"
    "4 \<le> q + 8 - p"
    "4 \<le> q + 8 - (p + 4)"
    "4 \<le> q + 8 - (p + 8)"
    "4 \<le> q + 8 - (p + 12)"
    "4 \<le> q + 12 - p"
    "4 \<le> q + 12 - (p + 4)"
    "4 \<le> q + 12 - (p + 8)"
    "4 \<le> q + 12 - (p + 12)"
  using assms unfolding apart_def by uint_arith+

lemma same_off:
  "4 \<le> (p::32 word) - (p + 4)"
  "4 \<le> (p::32 word) - (p + 8)"
  "4 \<le> (p::32 word) - (p + 12)"
  "4 \<le> (p::32 word) + 4 - p"
  "4 \<le> (p::32 word) + 4 - (p + 8)"
  "4 \<le> (p::32 word) + 4 - (p + 12)"
  "4 \<le> (p::32 word) + 8 - p"
  "4 \<le> (p::32 word) + 8 - (p + 4)"
  "4 \<le> (p::32 word) + 8 - (p + 12)"
  "4 \<le> (p::32 word) + 12 - p"
  "4 \<le> (p::32 word) + 12 - (p + 4)"
  "4 \<le> (p::32 word) + 12 - (p + 8)"
  by simp_all


lemma get_set_same [hdr]:
  "get_prev (set_prev m p v) p = v"
  "get_next (set_next m p v) p = v"
  "get_size (set_size m p v) p = v"
  "get_magic (set_magic m p v) p = v"
  by (simp_all add: get_prev_def get_next_def get_size_def get_magic_def
     set_prev_def set_next_def set_size_def set_magic_def load32_store32_same)

lemma get_set_field [hdr]:
  "get_prev (set_next m p v) p = get_prev m p"
  "get_prev (set_size m p v) p = get_prev m p"
  "get_prev (set_magic m p v) p = get_prev m p"
  "get_next (set_prev m p v) p = get_next m p"
  "get_next (set_size m p v) p = get_next m p"
  "get_next (set_magic m p v) p = get_next m p"
  "get_size (set_prev m p v) p = get_size m p"
  "get_size (set_next m p v) p = get_size m p"
  "get_size (set_magic m p v) p = get_size m p"
  "get_magic (set_prev m p v) p = get_magic m p"
  "get_magic (set_next m p v) p = get_magic m p"
  "get_magic (set_size m p v) p = get_magic m p"
  unfolding get_prev_def get_next_def get_size_def get_magic_def
     set_prev_def set_next_def set_size_def set_magic_def
  by (rule load32_store32_other; simp)+

lemma get_set_apart [hdr]:
  assumes "apart p q"
  shows
  "get_prev (set_prev m p v) q = get_prev m q"
  "get_prev (set_next m p v) q = get_prev m q"
  "get_prev (set_size m p v) q = get_prev m q"
  "get_prev (set_magic m p v) q = get_prev m q"
  "get_next (set_prev m p v) q = get_next m q"
  "get_next (set_next m p v) q = get_next m q"
  "get_next (set_size m p v) q = get_next m q"
  "get_next (set_magic m p v) q = get_next m q"
  "get_size (set_prev m p v) q = get_size m q"
  "get_size (set_next m p v) q = get_size m q"
  "get_size (set_size m p v) q = get_size m q"
  "get_size (set_magic m p v) q = get_size m q"
  "get_magic (set_prev m p v) q = get_magic m q"
  "get_magic (set_next m p v) q = get_magic m q"
  "get_magic (set_size m p v) q = get_magic m q"
  "get_magic (set_magic m p v) q = get_magic m q"
  unfolding get_prev_def get_next_def get_size_def get_magic_def
     set_prev_def set_next_def set_size_def set_magic_def
  by (rule load32_store32_other; (rule apart_off[OF assms] apart_off[OF apart_sym[OF assms]]))+


lemma u32: "unat (x::32 word) < 4294967296"
  using unsigned_less[of x, where 'a=nat] by simp

lemma observe_Some: "observe f x = Some y \<Longrightarrow> \<exists>v s. x = Some (Return v s) \<and> y = f v s"
  by (auto simp: observe_def split: option.splits outcome.splits)

lemma set_first_simps:
  "mem (set_first i p s) = mem s"
  "i < length (base s) \<Longrightarrow> get_first (set_first i p s) i = p"
  "length (base (set_first i p s)) = length (base s)"
  "grub_errno (set_first i p s) = grub_errno s"
  "grub_errmsg (set_first i p s) = grub_errmsg s"
  "hook_log (set_first i p s) = hook_log s"
  by (simp_all add: set_first_def get_first_def)

section \<open>Validation of a pointer\<close>

lemma find_region_Some:
  "find_region rs ptr k = Some i \<Longrightarrow>
     \<exists>j. i = k + j \<and> j < length rs \<and> in_region (rs ! j) ptr \<and> (\<forall>j' < j. \<not> in_region (rs ! j') ptr)"
proof (induction rs arbitrary: k)
  case Nil
  then show ?case by simp
next
  case (Cons r rs)
  show ?case
  proof (cases "in_region r ptr")
    case True
    with Cons.prems show ?thesis by simp
  next
    case False
    with Cons.prems have "find_region rs ptr (Suc k) = Some i" by simp
    from Cons.IH[OF this] obtain j where j: "i = Suc k + j" "j < length rs" "in_region (rs ! j) ptr"
      "\<forall>j' < j. \<not> in_region (rs ! j') ptr" by blast
    have "\<forall>j' < Suc j. \<not> in_region ((r # rs) ! j') ptr"
      using False j(4) by (auto simp: nth_Cons split: nat.splits)
    with j show ?thesis
      by (intro exI[of _ "Suc j"]) simp
  qed
qed

lemma find_region_Some0:
  "find_region rs ptr 0 = Some i \<Longrightarrow> i < length rs \<and> in_region (rs ! i) ptr \<and> (\<forall>j < i. \<not> in_region (rs ! j) ptr)"
  using find_region_Some[of rs ptr 0 i] by auto

lemma find_region_None:
  "find_region rs ptr k = None \<longleftrightarrow> (\<forall>r \<in> set rs. \<not> in_region r ptr)"
  by (induction rs arbitrary: k) auto

lemma get_header_from_pointer_Return:
  "get_header_from_pointer s ptr = Return (p, i) s' \<longleftrightarrow>
     ptr AND (GRUB_MM_ALIGN - 1) = 0 \<and> find_region (base s) ptr 0 = Some i
     \<and> get_magic (mem s) (ptr - GRUB_MM_ALIGN) = GRUB_MM_ALLOC_MAGIC \<and> p = ptr - GRUB_MM_ALIGN \<and> s' = s"
  by (auto simp: get_header_from_pointer_def Let_def split: option.splits)

lemma get_header_from_pointer_Fatal:
  "get_header_from_pointer s ptr = Fatal e s' \<Longrightarrow>
     s' = s \<and> \<not> valid_ptr s ptr \<and> e \<in> {Unaligned_pointer, Out_of_range_pointer, Alloc_magic_is_broken}"
  by (auto simp: get_header_from_pointer_def valid_ptr_def Let_def split: option.splits if_splits)

lemma get_header_from_pointer_cases:
  "(\<exists>e. get_header_from_pointer s ptr = Fatal e s \<and> \<not> valid_ptr s ptr
        \<and> e \<in> {Unaligned_pointer, Out_of_range_pointer, Alloc_magic_is_broken})
   \<or> (\<exists>i. get_header_from_pointer s ptr = Return (ptr - GRUB_MM_ALIGN, i) s \<and> valid_ptr s ptr
        \<and> find_region (base s) ptr 0 = Some i)"
  by (auto simp: get_header_from_pointer_def valid_ptr_def Let_def split: option.splits if_splits)

lemma free_walk_fatal':
  assumes "free_walk m p stop q = Some r"
  shows "\<forall>e. r = Inl e \<longrightarrow> e = Free_magic_is_broken"
  by (rule free_walk.raw_induct[OF _ assms]) (auto split: if_splits)

lemma free_walk_fatal:
  "free_walk m p stop q = Some (Inl e) \<Longrightarrow> e = Free_magic_is_broken"
  using free_walk_fatal' by blast

section \<open>The scan of the regions and the reclamation hooks\<close>






lemma scan_regions_skip_failed:
  assumes "\<forall>j \<in> set js. policies (base s ! j) pol = GRUB_MM_ALLOCATOR_SKIP
             \<or> grub_real_malloc align sz j (policies (base s ! j) pol) s = Some (Return 0 s)"
  shows "scan_regions align sz pol (js @ ks) s = scan_regions align sz pol ks s"
  using assms by (induction js) auto

lemma memalign_policy_first_success:
  assumes "k < length (base s)"
    and "\<forall>j < k. policies (base s ! j) pol = GRUB_MM_ALLOCATOR_SKIP
             \<or> grub_real_malloc align sz j (policies (base s ! j) pol) s = Some (Return 0 s)"
    and "policies (base s ! k) pol \<noteq> GRUB_MM_ALLOCATOR_SKIP"
    and "grub_real_malloc align sz k (policies (base s ! k) pol) s = Some (Return p s')"
    and "p \<noteq> 0"
  shows "grub_memalign_policy env align sz pol s = Some (Return p s')"
proof -
  have "[0 ..< length (base s)] = [0 ..< k] @ [k ..< length (base s)]"
    using upt_add_eq_append[of 0 k "length (base s) - k"] assms(1) by simp
  then have "[0 ..< length (base s)] = [0 ..< k] @ k # [Suc k ..< length (base s)]"
    using assms(1) by (simp add: upt_conv_Cons)
  then have "scan_regions align sz pol [0 ..< length (base s)] s
     = scan_regions align sz pol (k # [Suc k ..< length (base s)]) s"
    using scan_regions_skip_failed[of "[0 ..< k]" s pol align sz] assms(2) by simp
  also have "\<dots> = Some (Return p s')" using assms(3-5) by simp
  finally show ?thesis
    by (subst grub_memalign_policy_def, subst memalign_again.simps) (simp add: assms(5))
qed





lemma real_malloc_single_too_small:
  assumes "get_magic (mem s) (get_first s i) = GRUB_MM_FREE_MAGIC"
    and "get_first s i \<noteq> 0"
    and "get_next (mem s) (get_first s i) = get_first s i"
    and "get_prev (mem s) (get_first s i) = get_first s i"
    and "get_size (mem s) (get_first s i) < cells_for sz"
    and "drop_bit GRUB_MM_ALIGN_LOG2 align = 0"
  shows "grub_real_malloc align sz i alloc s = Some (Return 0 s)"
  using assms
  by (cases alloc)
     (simp_all add: grub_real_malloc_def Let_def real_malloc_loop.simps GRUB_MM_FREE_MAGIC_def
        GRUB_MM_ALLOC_MAGIC_def not_le[symmetric])

section \<open>The region list\<close>

lemma length_insert_region: "length (insert_region r rs) = Suc (length rs)"
  by (induction rs) simp_all

lemma insert_region_eq:
  "insert_region r rs =
     takeWhile (\<lambda>q. \<not> rsize q > rsize r) rs @ r # dropWhile (\<lambda>q. \<not> rsize q > rsize r) rs"
  by (induction rs) simp_all

lemma sorted_insert_region:
  "sorted (map rsize rs) \<Longrightarrow> sorted (map rsize (insert_region r rs))"
proof (induction rs)
  case Nil
  then show ?case by simp
next
  case (Cons q qs)
  have "set (insert_region r qs) = insert r (set qs)" by (induction qs) auto
  with Cons show ?case by (auto simp: less_imp_le not_less)
qed

lemma sorted_init_region:
  "sorted (map rsize (base s)) \<Longrightarrow> sorted (map rsize (base (grub_mm_init_region a sz pols s)))"
  by (simp add: grub_mm_init_region_def Let_def sorted_insert_region)

lemma sorted_register_regions:
  "sorted (map rsize (base s)) \<Longrightarrow> sorted (map rsize (base (register_regions rs s)))"
  by (induction rs s rule: register_regions.induct) (simp_all add: sorted_init_region)

section \<open>The cell count of a request\<close>

lemma cells_for_wrap:
  assumes "sz > - 1 - (GRUB_MM_ALIGN - 1)"
  shows "cells_for sz = 1"
proof -
  have "sz + 15 < 15"
    using assms u32[of sz]
    by (simp add: GRUB_MM_ALIGN_def GRUB_MM_ALIGN_LOG2_def word_less_nat_alt unat_plus_if')
  then have "drop_bit 4 (sz + 15) = 0"
    using u32[of "sz + 15"]
    by (simp add: word_less_nat_alt unat_drop_bit_eq drop_bit_eq_div unat_div flip: unat_eq_zero)
  then show ?thesis
    by (simp add: cells_for_def GRUB_MM_ALIGN_def GRUB_MM_ALIGN_LOG2_def add.commute add.left_commute)
qed

lemma cells_for_0: "cells_for 0 = 1"
  by (simp add: cells_for_def GRUB_MM_ALIGN_def GRUB_MM_ALIGN_LOG2_def)

lemma real_malloc_cells:
  "cells_for sz = cells_for sz' \<Longrightarrow> grub_real_malloc align sz i alloc s = grub_real_malloc align sz' i alloc s"
  by (simp add: grub_real_malloc_def)

lemma scan_regions_cells:
  "cells_for sz = cells_for sz' \<Longrightarrow> scan_regions align sz pol is s = scan_regions align sz' pol is s"
  by (induction "is" arbitrary: s) (simp_all add: real_malloc_cells[of sz sz'] split: option.splits outcome.splits)

lemma memalign_again_cells:
  "cells_for sz = cells_for sz' \<Longrightarrow> memalign_again env align sz pol c s = memalign_again env align sz' pol c s"
proof (induction env align sz pol c s rule: memalign_again.induct)
  case (1 env align sz pol count s)
  note c = scan_regions_cells[OF 1(3)]
  show ?case
    by (subst memalign_again.simps[of _ _ sz], subst memalign_again.simps[of _ _ sz'], insert 1)
       (auto simp: c split: option.splits outcome.splits)
qed

section \<open>The claims\<close>

text \<open>
  C1. Every allocate variant returns a cell-aligned pointer that is a multiple of the
  requested power-of-two alignment. The code computes the padding as the cell index of
  \<open>p + 1\<close> modulo the alignment, not as the distance to the next multiple: in a
  fresh 4 KiB region, \<open>grub_memalign (64, 16)\<close> returns \<open>0x1060\<close>, which is
  cell-aligned and is \<open>32\<close> modulo \<open>64\<close>.
\<close>

theorem memalign_misaligned:
  "observe (\<lambda>p s'. (p, p AND (64 - 1), p AND (GRUB_MM_ALIGN - 1), get_magic (mem s') (p - GRUB_MM_ALIGN)))
     (grub_memalign no_hooks 64 16 heap_4k) = Some (0x1060, 0x20, 0, GRUB_MM_ALLOC_MAGIC)"
  by code_simp

text \<open>
  The memory after the region of \<open>heap_forged\<close> holds what reads as a free header.
  Growing the last block by one cell takes that header for the next block of the
  region. The values observed: the region's bounds and ring before the call, then the
  returned pointer, the ring, the size of the block and a word of its contents after.
\<close>

lemma heap_forged_before:
  "map (\<lambda>r. (addr r, addr r + rsize r)) (base heap_forged) = [(0x1020, 0x2000)]
   \<and> get_first heap_forged 0 = 0x1020
   \<and> get_magic (mem heap_forged) 0x1020 = GRUB_MM_FREE_MAGIC
   \<and> get_next (mem heap_forged) 0x1020 = 0x1020
   \<and> get_prev (mem heap_forged) 0x1020 = 0x1020
   \<and> get_magic (mem heap_forged) 0x1040 = GRUB_MM_ALLOC_MAGIC
   \<and> get_size (mem heap_forged) 0x1040 = 252
   \<and> hdr_plus 0x1040 252 = 0x2000
   \<and> load32 (mem heap_forged) 0x1054 = 0"
  by code_simp

lemma heap_forged_realloc:
  "observe (\<lambda>p s. (p, get_first s 0, get_magic (mem s) (get_first s 0), get_next (mem s) (get_first s 0),
               get_prev (mem s) (get_first s 0), get_magic (mem s) (get_prev (mem s) (get_first s 0)),
               get_size (mem s) 0x1040, load32 (mem s) 0x1054))
     (grub_realloc no_hooks 0x1050 4032 heap_forged)
   = Some (0x1050, 0x1020, GRUB_MM_FREE_MAGIC, 0x1020, 0x1050, 0, 253, 0x1020)"
  by code_simp

text \<open>
  C3. After every public operation each region is full or its free list is one ring,
  ordered by address, with \<open>prev\<close> and \<open>next\<close> inverse to each other and every
  node FREE. \<open>grub_rememalign_policy\<close> bounds the next header by
  \<open>r->addr + (r->size << GRUB_MM_ALIGN_LOG2)\<close>, with \<open>r->size\<close> in bytes already, and
  reads the header after the region: in \<open>heap_forged\<close> the ring is the single node
  \<open>0x1020\<close>, and after growing the block at \<open>0x1050\<close> by 16 bytes the region is
  not full, \<open>next\<close> of \<open>first\<close> is \<open>first\<close>, and \<open>prev\<close> of \<open>first\<close> is \<open>0x1050\<close>,
  which carries no FREE magic.
\<close>

theorem realloc_breaks_ring:
  "get_first heap_forged 0 = 0x1020
   \<and> get_magic (mem heap_forged) 0x1020 = GRUB_MM_FREE_MAGIC
   \<and> get_next (mem heap_forged) 0x1020 = 0x1020
   \<and> get_prev (mem heap_forged) 0x1020 = 0x1020
   \<and> observe (\<lambda>p s. (p, get_first s 0, get_magic (mem s) (get_first s 0), get_next (mem s) (get_first s 0),
               get_prev (mem s) (get_first s 0), get_magic (mem s) (get_prev (mem s) (get_first s 0))))
        (grub_realloc no_hooks 0x1050 4032 heap_forged)
      = Some (0x1050, 0x1020, GRUB_MM_FREE_MAGIC, 0x1020, 0x1050, 0)"
proof -
  from heap_forged_realloc obtain p s where
    "grub_realloc no_hooks 0x1050 4032 heap_forged = Some (Return p s)"
    "(p, get_first s 0, get_magic (mem s) (get_first s 0), get_next (mem s) (get_first s 0),
      get_prev (mem s) (get_first s 0), get_magic (mem s) (get_prev (mem s) (get_first s 0)),
      get_size (mem s) 0x1040, load32 (mem s) 0x1054)
     = (0x1050, 0x1020, GRUB_MM_FREE_MAGIC, 0x1020, 0x1050, 0, 253, 0x1020)"
    by (auto dest!: observe_Some)
  then show ?thesis
    using heap_forged_before by (clarsimp simp add: observe_def)
qed

text \<open>
  C4. A failed resize returns null and leaves the block as it is, and a resize that
  returns a pointer keeps the first \<open>min (old, new)\<close> bytes. In \<open>heap_forged\<close> the
  block at \<open>0x1050\<close> has 251 cells of contents, its bytes 4 to 7 are zero, and the
  region has no free block behind it; growing it by 16 bytes returns \<open>0x1050\<close> with
  253 cells in the header and bytes 4 to 7 of the contents set to \<open>0x1020\<close>: the
  unlinking of the header read after the region wrote into the block.
\<close>

theorem realloc_changes_contents:
  "get_magic (mem heap_forged) (0x1050 - GRUB_MM_ALIGN) = GRUB_MM_ALLOC_MAGIC
   \<and> get_size (mem heap_forged) (0x1050 - GRUB_MM_ALIGN) = 252
   \<and> load32 (mem heap_forged) (0x1050 + 4) = 0
   \<and> observe (\<lambda>p s. (p, get_size (mem s) (p - GRUB_MM_ALIGN), load32 (mem s) (p + 4)))
        (grub_realloc no_hooks 0x1050 4032 heap_forged)
      = Some (0x1050, 253, 0x1020)"
proof -
  from heap_forged_realloc obtain p s where
    "grub_realloc no_hooks 0x1050 4032 heap_forged = Some (Return p s)"
    "(p, get_first s 0, get_magic (mem s) (get_first s 0), get_next (mem s) (get_first s 0),
      get_prev (mem s) (get_first s 0), get_magic (mem s) (get_prev (mem s) (get_first s 0)),
      get_size (mem s) 0x1040, load32 (mem s) 0x1054)
     = (0x1050, 0x1020, GRUB_MM_FREE_MAGIC, 0x1020, 0x1050, 0, 253, 0x1020)"
    by (auto dest!: observe_Some)
  then show ?thesis
    using heap_forged_before by (clarsimp simp add: observe_def GRUB_MM_ALIGN_def GRUB_MM_ALIGN_LOG2_def)
qed


text \<open>
  C6. \<open>grub_mm_init_region\<close> inserts a region before the first region of strictly
  greater size, so the list stays in ascending order of size after any sequence of
  registrations; \<open>grub_memalign_policy\<close> visits the regions in list order, skips
  those whose strategy is SKIP and returns the first success.
\<close>

theorem regions_sorted_and_scanned_in_order:
  "(base (grub_mm_init_region a sz pols s) = base s
      \<or> (\<exists>r. base (grub_mm_init_region a sz pols s)
            = takeWhile (\<lambda>q. \<not> rsize q > rsize r) (base s) @ r # dropWhile (\<lambda>q. \<not> rsize q > rsize r) (base s)))
   \<and> sorted (map rsize (base (register_regions rs empty_state)))
   \<and> (sorted (map rsize (base s)) \<longrightarrow> sorted (map rsize (base (register_regions rs s))))
   \<and> (\<forall>k p s'.
        k < length (base s)
        \<and> (\<forall>j < k. policies (base s ! j) pol = GRUB_MM_ALLOCATOR_SKIP
               \<or> grub_real_malloc align sz' j (policies (base s ! j) pol) s = Some (Return 0 s))
        \<and> policies (base s ! k) pol \<noteq> GRUB_MM_ALLOCATOR_SKIP
        \<and> grub_real_malloc align sz' k (policies (base s ! k) pol) s = Some (Return p s') \<and> p \<noteq> 0
        \<longrightarrow> grub_memalign_policy env align sz' pol s = Some (Return p s'))"
proof -
  have 1: "base (grub_mm_init_region a sz pols s) = base s
      \<or> (\<exists>r. base (grub_mm_init_region a sz pols s)
            = takeWhile (\<lambda>q. \<not> rsize q > rsize r) (base s) @ r # dropWhile (\<lambda>q. \<not> rsize q > rsize r) (base s))"
  proof (cases "sz < GRUB_MM_ALIGN * 4")
    case True
    then show ?thesis by (simp add: grub_mm_init_region_def)
  next
    case False
    then obtain r where "base (grub_mm_init_region a sz pols s) = insert_region r (base s)"
      by (simp add: grub_mm_init_region_def Let_def)
    then show ?thesis using insert_region_eq[of r "base s"] by auto
  qed
  have 2: "sorted (map rsize (base (register_regions rs empty_state)))"
    by (rule sorted_register_regions) (simp add: empty_state_def)
  show ?thesis
    using 1 2 sorted_register_regions memalign_policy_first_success by blast
qed
theorem regions_sorted_and_scanned_in_order_witness:
  "map rsize (base heap_two_regions) = [0x3E0, 0x3FE0]
   \<and> sorted (map rsize (base heap_two_regions))
   \<and> grub_real_malloc 0 0x2000 0 (policies (base heap_two_regions ! 0) GRUB_MM_MALLOC_DEFAULT) heap_two_regions
        = Some (Return 0 heap_two_regions)
   \<and> (\<exists>s'. grub_real_malloc 0 0x2000 1 (policies (base heap_two_regions ! 1) GRUB_MM_MALLOC_DEFAULT)
            heap_two_regions = Some (Return 0x10030 s')
          \<and> grub_memalign_policy no_hooks 0 0x2000 GRUB_MM_MALLOC_DEFAULT heap_two_regions
            = Some (Return 0x10030 s'))"
proof -
  have v: "map rsize (base heap_two_regions) = [0x3E0, 0x3FE0]"
    "length (base heap_two_regions) = 2"
    "policies (base heap_two_regions ! 0) GRUB_MM_MALLOC_DEFAULT = GRUB_MM_ALLOCATOR_SECOND"
    "policies (base heap_two_regions ! 1) GRUB_MM_MALLOC_DEFAULT = GRUB_MM_ALLOCATOR_SECOND"
    "get_first heap_two_regions 0 = 0x1020"
    "get_magic (mem heap_two_regions) 0x1020 = GRUB_MM_FREE_MAGIC"
    "get_next (mem heap_two_regions) 0x1020 = 0x1020"
    "get_prev (mem heap_two_regions) 0x1020 = 0x1020"
    "get_size (mem heap_two_regions) 0x1020 < cells_for 0x2000"
    by code_simp+
  have s: "sorted (map rsize (base heap_two_regions))"
    unfolding v by simp
  have 0: "grub_real_malloc 0 0x2000 0 (policies (base heap_two_regions ! 0) GRUB_MM_MALLOC_DEFAULT)
      heap_two_regions = Some (Return 0 heap_two_regions)"
    by (rule real_malloc_single_too_small) (simp_all add: v)
  have "observe (\<lambda>p s. p) (grub_real_malloc 0 0x2000 1 GRUB_MM_ALLOCATOR_SECOND heap_two_regions) = Some 0x10030"
    by code_simp
  then obtain s' where 1: "grub_real_malloc 0 0x2000 1 (policies (base heap_two_regions ! 1) GRUB_MM_MALLOC_DEFAULT)
      heap_two_regions = Some (Return 0x10030 s')"
    unfolding v by (auto dest: observe_Some)
  have k: "(1::nat) < length (base heap_two_regions)"
    "policies (base heap_two_regions ! 1) GRUB_MM_MALLOC_DEFAULT \<noteq> GRUB_MM_ALLOCATOR_SKIP"
    "(0x10030 :: 32 word) \<noteq> 0"
    using v(2,4) by simp_all
  have j: "\<forall>j < 1. policies (base heap_two_regions ! j) GRUB_MM_MALLOC_DEFAULT = GRUB_MM_ALLOCATOR_SKIP
      \<or> grub_real_malloc 0 0x2000 j (policies (base heap_two_regions ! j) GRUB_MM_MALLOC_DEFAULT)
           heap_two_regions = Some (Return 0 heap_two_regions)"
    using 0 by simp
  have "grub_memalign_policy no_hooks 0 0x2000 GRUB_MM_MALLOC_DEFAULT heap_two_regions = Some (Return 0x10030 s')"
    by (rule regions_sorted_and_scanned_in_order[of 0 0 default_policies heap_two_regions "[]"
          GRUB_MM_MALLOC_DEFAULT 0 "0x2000" no_hooks,
          THEN conjunct2, THEN conjunct2, THEN conjunct2, rule_format, of 1])
       (use k j 1 in blast)
  with v(1) s 0 1 show ?thesis by blast
qed

text \<open>
  C7. A region whose \<open>first\<close> header carries the ALLOC magic is full: the search
  returns null and leaves the state as it is. Freeing a validated pointer of such a
  region marks its header FREE, links it to itself and makes it \<open>first\<close>.
\<close>

theorem region_full_sentinel:
  "(get_magic (mem s) (get_first s i) = GRUB_MM_ALLOC_MAGIC \<longrightarrow>
      grub_real_malloc align sz i alloc s = Some (Return 0 s))
   \<and> (ptr \<noteq> 0 \<and> ptr AND (GRUB_MM_ALIGN - 1) = 0 \<and> find_region (base s) ptr 0 = Some i
        \<and> get_magic (mem s) (ptr - GRUB_MM_ALIGN) = GRUB_MM_ALLOC_MAGIC
        \<and> get_magic (mem s) (get_first s i) = GRUB_MM_ALLOC_MAGIC \<longrightarrow>
      (\<exists>s'. grub_free ptr s = Some (Return () s')
         \<and> get_magic (mem s') (ptr - GRUB_MM_ALIGN) = GRUB_MM_FREE_MAGIC
         \<and> get_prev (mem s') (ptr - GRUB_MM_ALIGN) = ptr - GRUB_MM_ALIGN
         \<and> get_next (mem s') (ptr - GRUB_MM_ALIGN) = ptr - GRUB_MM_ALIGN
         \<and> get_first s' i = ptr - GRUB_MM_ALIGN))"
proof (intro conjI impI)
  assume "get_magic (mem s) (get_first s i) = GRUB_MM_ALLOC_MAGIC"
  then show "grub_real_malloc align sz i alloc s = Some (Return 0 s)"
    by (simp add: grub_real_malloc_def Let_def)
next
  assume a: "ptr \<noteq> 0 \<and> ptr AND (GRUB_MM_ALIGN - 1) = 0 \<and> find_region (base s) ptr 0 = Some i
        \<and> get_magic (mem s) (ptr - GRUB_MM_ALIGN) = GRUB_MM_ALLOC_MAGIC
        \<and> get_magic (mem s) (get_first s i) = GRUB_MM_ALLOC_MAGIC"
  then have h: "get_header_from_pointer s ptr = Return (ptr - GRUB_MM_ALIGN, i) s"
    by (simp add: get_header_from_pointer_Return)
  have i: "i < length (base s)" using a find_region_Some0 by blast
  show "\<exists>s'. grub_free ptr s = Some (Return () s')
         \<and> get_magic (mem s') (ptr - GRUB_MM_ALIGN) = GRUB_MM_FREE_MAGIC
         \<and> get_prev (mem s') (ptr - GRUB_MM_ALIGN) = ptr - GRUB_MM_ALIGN
         \<and> get_next (mem s') (ptr - GRUB_MM_ALIGN) = ptr - GRUB_MM_ALIGN
         \<and> get_first s' i = ptr - GRUB_MM_ALIGN"
    using a h i by (simp add: grub_free_def Let_def set_first_simps hdr)
qed
theorem region_full_sentinel_witness:
  "get_magic (mem heap_full) (get_first heap_full 0) = GRUB_MM_ALLOC_MAGIC
   \<and> grub_real_malloc 0 16 0 GRUB_MM_ALLOCATOR_SECOND heap_full = Some (Return 0 heap_full)
   \<and> (0x1030 :: 32 word) \<noteq> 0 \<and> 0x1030 AND (GRUB_MM_ALIGN - 1) = 0
   \<and> find_region (base heap_full) 0x1030 0 = Some 0
   \<and> get_magic (mem heap_full) (0x1030 - GRUB_MM_ALIGN) = GRUB_MM_ALLOC_MAGIC
   \<and> (\<exists>s'. grub_free 0x1030 heap_full = Some (Return () s')
         \<and> get_magic (mem s') (0x1030 - GRUB_MM_ALIGN) = GRUB_MM_FREE_MAGIC
         \<and> get_prev (mem s') (0x1030 - GRUB_MM_ALIGN) = 0x1030 - GRUB_MM_ALIGN
         \<and> get_next (mem s') (0x1030 - GRUB_MM_ALIGN) = 0x1030 - GRUB_MM_ALIGN
         \<and> get_first s' 0 = 0x1030 - GRUB_MM_ALIGN)"
proof -
  have 1: "get_magic (mem heap_full) (get_first heap_full 0) = GRUB_MM_ALLOC_MAGIC" by code_simp
  have 2: "(0x1030 :: 32 word) \<noteq> 0 \<and> 0x1030 AND (GRUB_MM_ALIGN - 1) = 0
     \<and> find_region (base heap_full) 0x1030 0 = Some 0
     \<and> get_magic (mem heap_full) (0x1030 - GRUB_MM_ALIGN) = GRUB_MM_ALLOC_MAGIC" by code_simp
  show ?thesis
    using 1 2 region_full_sentinel[of heap_full 0 0 16 GRUB_MM_ALLOCATOR_SECOND "0x1030"] by blast
qed

text \<open>
  C8, as amended. \<open>grub_free\<close> of the null pointer returns the state unchanged. For a
  non-null pointer, the fatal messages of the validation (unaligned pointer, out of
  range pointer, broken alloc magic) arise exactly when the pointer is not
  cell-aligned, or lies in no region, or the header below it lacks the ALLOC magic; a
  fatal outcome never follows a write. A validated pointer can still end in
  \<open>grub_fatal\<close>: when the walk of the free ring meets a header without the FREE magic.
\<close>

theorem free_fatal_conditions:
  "grub_free 0 s = Some (Return () s)
   \<and> (ptr \<noteq> 0 \<longrightarrow>
        (fatal_of (grub_free ptr s) \<in> {Some Unaligned_pointer, Some Out_of_range_pointer, Some Alloc_magic_is_broken}
           \<longleftrightarrow> \<not> valid_ptr s ptr)
      \<and> (\<forall>e s'. grub_free ptr s = Some (Fatal e s') \<longrightarrow>
            s' = s \<and> (if valid_ptr s ptr then e = Free_magic_is_broken
                       else e \<in> {Unaligned_pointer, Out_of_range_pointer, Alloc_magic_is_broken})))"
proof -
  have n: "grub_free 0 s = Some (Return () s)" by (simp add: grub_free_def)
  have f: "s' = s \<and> (if valid_ptr s ptr then e = Free_magic_is_broken
                       else e \<in> {Unaligned_pointer, Out_of_range_pointer, Alloc_magic_is_broken})"
    if "ptr \<noteq> 0" "grub_free ptr s = Some (Fatal e s')" for e s'
    using get_header_from_pointer_cases[of s ptr]
  proof (elim disjE exE conjE)
    fix e0 assume "get_header_from_pointer s ptr = Fatal e0 s" "\<not> valid_ptr s ptr"
      "e0 \<in> {Unaligned_pointer, Out_of_range_pointer, Alloc_magic_is_broken}"
    with that show ?thesis by (simp add: grub_free_def)
  next
    fix i assume "get_header_from_pointer s ptr = Return (ptr - GRUB_MM_ALIGN, i) s" "valid_ptr s ptr"
    with that show ?thesis
      by (auto simp: grub_free_def Let_def split: if_splits option.splits sum.splits dest: free_walk_fatal)
  qed
  have v: "fatal_of (grub_free ptr s) \<in> {Some Unaligned_pointer, Some Out_of_range_pointer, Some Alloc_magic_is_broken}
           \<longleftrightarrow> \<not> valid_ptr s ptr" if "ptr \<noteq> 0"
    using get_header_from_pointer_cases[of s ptr]
  proof (elim disjE exE conjE)
    fix e0 assume "get_header_from_pointer s ptr = Fatal e0 s" "\<not> valid_ptr s ptr"
      "e0 \<in> {Unaligned_pointer, Out_of_range_pointer, Alloc_magic_is_broken}"
    with that show ?thesis by (auto simp add: grub_free_def fatal_of_def)
  next
    fix i assume "get_header_from_pointer s ptr = Return (ptr - GRUB_MM_ALIGN, i) s" "valid_ptr s ptr"
    with that show ?thesis
      by (auto simp: grub_free_def fatal_of_def Let_def split: if_splits option.splits sum.splits outcome.splits dest: free_walk_fatal)
  qed
  show ?thesis using n f v by blast
qed

theorem free_fatal_conditions_witness:
  "(0x1070 :: 32 word) \<noteq> 0 \<and> valid_ptr heap_overflown 0x1070
   \<and> fatal_of (grub_free 0x1070 heap_overflown) = Some Free_magic_is_broken
   \<and> fatal_of (grub_free 0x1070 heap_overflown)
        \<notin> {Some Unaligned_pointer, Some Out_of_range_pointer, Some Alloc_magic_is_broken}
   \<and> \<not> valid_ptr heap_overflown 0x1071
   \<and> fatal_of (grub_free 0x1071 heap_overflown)
        \<in> {Some Unaligned_pointer, Some Out_of_range_pointer, Some Alloc_magic_is_broken}"
proof -
  have v: "valid_ptr heap_overflown 0x1070" "\<not> valid_ptr heap_overflown 0x1071"
    "fatal_of (grub_free 0x1070 heap_overflown) = Some Free_magic_is_broken"
    by code_simp+
  show ?thesis
    using v free_fatal_conditions[of heap_overflown "0x1070"] free_fatal_conditions[of heap_overflown "0x1071"]
    by simp
qed

text \<open>
  C8 as stated fails: after the overflow, the pointer \<open>0x1070\<close> passes the three checks
  and \<open>grub_free\<close> still ends in \<open>grub_fatal\<close>.
\<close>

theorem free_fatal_counterexample:
  "(0x1070 :: 32 word) \<noteq> 0
   \<and> 0x1070 AND (GRUB_MM_ALIGN - 1) = (0 :: 32 word)
   \<and> find_region (base heap_overflown) 0x1070 0 = Some 0
   \<and> get_magic (mem heap_overflown) (0x1070 - GRUB_MM_ALIGN) = GRUB_MM_ALLOC_MAGIC
   \<and> fatal_of (grub_free 0x1070 heap_overflown) = Some Free_magic_is_broken"
  by code_simp

text \<open>
  C9, as amended. \<open>grub_mm_init_region\<close> leaves the state as it is exactly when the
  size it is given, before alignment and before the region header is taken off, is
  less than four cells. Otherwise it installs the region, with one free block of the
  usable cells that links to itself, and sets no error.
\<close>

theorem init_region_drops_small_sizes:
  "(grub_mm_init_region a sz pols s = s \<longleftrightarrow> sz < GRUB_MM_ALIGN * 4)
   \<and> (GRUB_MM_ALIGN * 4 \<le> sz \<longrightarrow>
        (let h = ALIGN_UP a GRUB_MM_ALIGN + sizeof_region;
             cells = drop_bit GRUB_MM_ALIGN_LOG2 (usable_bytes a sz);
             s' = grub_mm_init_region a sz pols s
         in base s' = insert_region \<lparr> first = h, addr = h, rsize = push_bit GRUB_MM_ALIGN_LOG2 cells,
                                       policies = pols \<rparr> (base s)
            \<and> get_magic (mem s') h = GRUB_MM_FREE_MAGIC \<and> get_size (mem s') h = cells
            \<and> get_next (mem s') h = h \<and> get_prev (mem s') h = h
            \<and> grub_errno s' = grub_errno s \<and> grub_errmsg s' = grub_errmsg s))"
proof -
  have 1: "grub_mm_init_region a sz pols s = s" if "sz < GRUB_MM_ALIGN * 4"
    using that by (simp add: grub_mm_init_region_def)
  have 2: "length (base (grub_mm_init_region a sz pols s)) = Suc (length (base s))"
    if "\<not> sz < GRUB_MM_ALIGN * 4"
    using that by (simp add: grub_mm_init_region_def Let_def length_insert_region)
  have 3: "grub_mm_init_region a sz pols s \<noteq> s" if "\<not> sz < GRUB_MM_ALIGN * 4"
  proof
    assume "grub_mm_init_region a sz pols s = s"
    with 2[OF that] show False by simp
  qed
  have 4: "(let h = ALIGN_UP a GRUB_MM_ALIGN + sizeof_region;
             cells = drop_bit GRUB_MM_ALIGN_LOG2 (usable_bytes a sz);
             s' = grub_mm_init_region a sz pols s
         in base s' = insert_region \<lparr> first = h, addr = h, rsize = push_bit GRUB_MM_ALIGN_LOG2 cells,
                                       policies = pols \<rparr> (base s)
            \<and> get_magic (mem s') h = GRUB_MM_FREE_MAGIC \<and> get_size (mem s') h = cells
            \<and> get_next (mem s') h = h \<and> get_prev (mem s') h = h
            \<and> grub_errno s' = grub_errno s \<and> grub_errmsg s' = grub_errmsg s)"
    if "GRUB_MM_ALIGN * 4 \<le> sz"
    using that by (simp add: grub_mm_init_region_def Let_def hdr usable_bytes_def not_less[symmetric])
  show ?thesis using 1 3 4 by blast
qed

theorem init_region_drops_small_sizes_witness:
  "GRUB_MM_ALIGN * 4 \<le> (0x1000 :: 32 word)
   \<and> map (\<lambda>r. (first r, addr r, rsize r)) (base heap_4k) = [(0x1020, 0x1020, 0xFE0)]
   \<and> get_magic (mem heap_4k) 0x1020 = GRUB_MM_FREE_MAGIC \<and> get_size (mem heap_4k) 0x1020 = 0xFE
   \<and> get_next (mem heap_4k) 0x1020 = 0x1020 \<and> get_prev (mem heap_4k) 0x1020 = 0x1020"
proof -
  have h: "GRUB_MM_ALIGN * 4 \<le> (0x1000 :: 32 word)"
    by (simp add: GRUB_MM_ALIGN_def GRUB_MM_ALIGN_LOG2_def)
  have v: "ALIGN_UP 0x1000 GRUB_MM_ALIGN + sizeof_region = 0x1020"
    "drop_bit GRUB_MM_ALIGN_LOG2 (usable_bytes 0x1000 0x1000) = 0xFE"
    "push_bit GRUB_MM_ALIGN_LOG2 (0xFE :: 32 word) = 0xFE0"
    by code_simp+
  show ?thesis
    using h init_region_drops_small_sizes[of "0x1000" "0x1000" default_policies empty_state]
    by (simp add: Let_def v heap_4k_def empty_state_def)
qed

text \<open>
  C9 as stated fails: of 64 bytes at an aligned address, 32 bytes, two cells, remain
  after the region header, and the region is installed.
\<close>

theorem init_region_small_span_counterexample:
  "drop_bit GRUB_MM_ALIGN_LOG2 (usable_bytes 0x1000 64) < (4 :: 32 word)
   \<and> map (\<lambda>r. (first r, addr r, rsize r)) (base (grub_mm_init_region 0x1000 64 default_policies empty_state))
       = [(0x1020, 0x1020, 0x20)]"
  by code_simp

text \<open>
  C10. The cell count \<open>((size + cell - 1) >> log2 cell) + 1\<close> wraps: for every size
  above the largest word minus \<open>cell - 1\<close> it is one cell, the request is served as
  a request for zero bytes, \<open>grub_malloc\<close> returns a block of one cell in a fresh
  4 KiB region, and \<open>grub_rememalign_policy\<close> returns the old pointer as if the block
  were large enough.
\<close>

theorem cells_for_wraps_to_one:
  assumes "sz > - 1 - (GRUB_MM_ALIGN - 1)"
  shows "cells_for sz = drop_bit GRUB_MM_ALIGN_LOG2 (sz + GRUB_MM_ALIGN - 1) + 1
    \<and> cells_for sz = 1
    \<and> grub_memalign_policy env align sz pol s = grub_memalign_policy env align 0 pol s
    \<and> observe (\<lambda>p s'. (p \<noteq> 0, p, get_size (mem s') (p - GRUB_MM_ALIGN), get_magic (mem s') (p - GRUB_MM_ALIGN)))
           (grub_malloc no_hooks sz heap_4k) = Some (True, 0x1030, 1, GRUB_MM_ALLOC_MAGIC)
    \<and> (\<forall>p i. get_header_from_pointer s ptr = Return (p, i) s \<and> ptr \<noteq> 0 \<and> get_size (mem s) p \<noteq> 0
          \<longrightarrow> grub_rememalign_policy env ptr align sz pol s = Some (Return ptr s))"
proof -
  have c: "cells_for sz = cells_for 0"
    using cells_for_wrap[OF assms] cells_for_0 by simp
  have z: "sz \<noteq> 0" using assms by (auto simp: GRUB_MM_ALIGN_def GRUB_MM_ALIGN_LOG2_def)
  have e: "grub_malloc no_hooks sz heap_4k = grub_malloc no_hooks 0 heap_4k"
    by (simp add: grub_malloc_def grub_memalign_def grub_memalign_policy_def memalign_again_cells[OF c])
  have v: "observe (\<lambda>p s'. (p \<noteq> 0, p, get_size (mem s') (p - GRUB_MM_ALIGN), get_magic (mem s') (p - GRUB_MM_ALIGN)))
           (grub_malloc no_hooks 0 heap_4k) = Some (True, 0x1030, 1, GRUB_MM_ALLOC_MAGIC)"
    by code_simp
  have r: "grub_rememalign_policy env ptr align sz pol s = Some (Return ptr s)"
    if "get_header_from_pointer s ptr = Return (p, i) s" "ptr \<noteq> 0" "get_size (mem s) p \<noteq> 0" for p i
  proof -
    have "1 \<le> get_size (mem s) p" using that(3) by (simp add: word_le_nat_alt unat_gt_0 Suc_le_eq)
    then show ?thesis
      using that z by (simp add: grub_rememalign_policy_def cells_for_wrap[OF assms] Let_def)
  qed
  have a: "cells_for sz = drop_bit GRUB_MM_ALIGN_LOG2 (sz + GRUB_MM_ALIGN - 1) + 1"
    by (simp add: cells_for_def)
  have b: "grub_memalign_policy env align sz pol s = grub_memalign_policy env align 0 pol s"
    by (simp add: grub_memalign_policy_def memalign_again_cells[OF c])
  show ?thesis
    using a cells_for_wrap[OF assms] b v r unfolding e by blast
qed

theorem cells_for_wraps_to_one_witness:
  "(0xFFFFFFFF :: 32 word) > - 1 - (GRUB_MM_ALIGN - 1) \<and> cells_for 0xFFFFFFFF = 1
   \<and> observe (\<lambda>p s'. (p \<noteq> 0, p, get_size (mem s') (p - GRUB_MM_ALIGN), get_magic (mem s') (p - GRUB_MM_ALIGN)))
           (grub_malloc no_hooks 0xFFFFFFFF heap_4k) = Some (True, 0x1030, 1, GRUB_MM_ALLOC_MAGIC)"
proof -
  have h: "(0xFFFFFFFF :: 32 word) > - 1 - (GRUB_MM_ALIGN - 1)"
    by (simp add: GRUB_MM_ALIGN_def GRUB_MM_ALIGN_LOG2_def)
  show ?thesis
    using h cells_for_wraps_to_one[OF h, of no_hooks 0 GRUB_MM_MALLOC_DEFAULT empty_state 0] by blast
qed

end
